theory Spec2Isabelle
  imports Main
begin

section \<open>Data model of \<^verbatim>\<open>zk_shell/cli.py\<close>\<close>

text \<open>
  \<^verbatim>\<open>CLIParams\<close> is the named tuple
  \<^verbatim>\<open>connect_timeout run_once run_from_stdin sync_connect hosts readonly\<close>.
  The field types are the ones \<^verbatim>\<open>get_params\<close> produces through argparse.
\<close>

record CLIParams =
  connect_timeout :: int
  run_once :: string
  run_from_stdin :: bool
  sync_connect :: bool
  hosts :: "string list"
  readonly :: bool

text \<open>
  The exceptions the driver names (\<^verbatim>\<open>IOError\<close>, \<^verbatim>\<open>StateTransition\<close>,
  \<^verbatim>\<open>KeyboardInterrupt\<close>), the one \<^verbatim>\<open>raw_input\<close> raises at end of input, and any
  other exception, identified by its class name.
\<close>

datatype exc = IOError | StateTransition | KeyboardInterrupt | EOFError | OtherError string

text \<open>What \<^verbatim>\<open>shell.onecmd\<close> may return; \<^verbatim>\<open>None\<close> is the only value equal to \<^verbatim>\<open>None\<close>.\<close>

datatype pyval = PyNone | PyBool bool | PyInt int | PyStr string

text \<open>
  The object bound to \<^verbatim>\<open>sys.stdout\<close>: the interpreter's own stream, or an
  \<^verbatim>\<open>Unbuffered\<close> instance whose field \<^verbatim>\<open>stream\<close> is the wrapped object.
\<close>

datatype out_stream = Stdout | Unbuffered out_stream

text \<open>The disposition of \<^verbatim>\<open>SIGUSR2\<close>: the default one, or \<^verbatim>\<open>sigusr_handler\<close>.\<close>

datatype handler = SIG_DFL | Sigusr_handler

text \<open>
  The calls the driver makes on its collaborators, in the order it makes them:
  the \<^verbatim>\<open>Shell\<close> constructor with its six arguments (hosts, connect timeout,
  \<^verbatim>\<open>setup_readline\<close>, \<^verbatim>\<open>output\<close>, \<^verbatim>\<open>async\<close>, \<^verbatim>\<open>read_only\<close>),
  \<^verbatim>\<open>shell.onecmd\<close>, \<^verbatim>\<open>sys.stdin.readlines\<close>, \<^verbatim>\<open>shell.run\<close> and \<^verbatim>\<open>raw_input\<close>.
\<close>

datatype event =
    ShellInit "string list" int bool out_stream bool bool
  | OneCmd string
  | ReadLines
  | Run "string option"
  | RawInput string

text \<open>
  What the driver gets from outside. The collaborators answer a call either with a
  value (\<open>Inr\<close>) or by raising (\<open>Inl\<close>); the answer may depend on every call made
  before (the history), so a stateful shell, a terminal user and signals that interrupt
  a blocking call are all covered. The \<^verbatim>\<open>Shell\<close> constructor is taken to return.

  \<open>str_isspace\<close> is the interpreter's table of whitespace characters, the one
  \<^verbatim>\<open>str.rstrip()\<close> consults. It is not part of \<^verbatim>\<open>cli.py\<close> and differs between
  Python 2 byte strings and Python 3 strings.
\<close>

record env =
  shell_onecmd :: "event list \<Rightarrow> string \<Rightarrow> exc + pyval"
  stdin_readlines :: "event list \<Rightarrow> exc + string list"
  shell_run :: "event list \<Rightarrow> string option \<Rightarrow> exc + unit"
  raw_input :: "event list \<Rightarrow> string \<Rightarrow> exc + string"
  str_isspace :: "char \<Rightarrow> bool"

text \<open>The process state the driver changes, and the record of its calls.\<close>

record proc =
  sys_stdout :: out_stream
  sigusr2 :: handler
  trace :: "event list"

text \<open>
  How \<^verbatim>\<open>CLI.__call__\<close> ends: \<^verbatim>\<open>sys.exit(rc)\<close>, a normal return after the
  \<^verbatim>\<open>break\<close>, or an exception that no handler caught.
\<close>

datatype outcome = SystemExit int | Returned | Uncaught exc

datatype mode = OneShot | Batch | Interactive

section \<open>The output adapter\<close>

text \<open>
  \<^verbatim>\<open>set_unbuffered_mode\<close>: \<^verbatim>\<open>sys.stdout = Unbuffered(sys.stdout)\<close>.
\<close>

definition set_unbuffered_mode :: "proc \<Rightarrow> proc" where
  "set_unbuffered_mode st = st\<lparr>sys_stdout := Unbuffered (sys_stdout st)\<rparr>"

text \<open>
  The interpreter's stream is a state machine with a \<^verbatim>\<open>write\<close> and a \<^verbatim>\<open>flush\<close>
  that may raise. Its \<^verbatim>\<open>write\<close> returns a value (\<^verbatim>\<open>None\<close> for a Python 2 file, the
  number of characters written for a Python 3 text stream).
\<close>

record 's raw_stream =
  raw_write :: "string \<Rightarrow> 's \<Rightarrow> exc + pyval \<times> 's"
  raw_flush :: "'s \<Rightarrow> exc + 's"

text \<open>
  \<^verbatim>\<open>flush\<close> is not defined by \<^verbatim>\<open>Unbuffered\<close>, so \<^verbatim>\<open>__getattr__\<close> forwards it
  to the wrapped stream.
\<close>

fun stream_flush :: "'s raw_stream \<Rightarrow> out_stream \<Rightarrow> 's \<Rightarrow> exc + 's" where
  "stream_flush raw Stdout s = raw_flush raw s"
| "stream_flush raw (Unbuffered strm) s = stream_flush raw strm s"

text \<open>
  \<^verbatim>\<open>Unbuffered.write\<close>: \<^verbatim>\<open>self.stream.write(data); self.stream.flush()\<close>.
  An exception of the first call leaves the second one out. The method has no
  \<^verbatim>\<open>return\<close>: the value of the wrapped \<^verbatim>\<open>write\<close> is dropped and the caller gets
  \<^verbatim>\<open>None\<close>.
\<close>

fun stream_write :: "'s raw_stream \<Rightarrow> out_stream \<Rightarrow> string \<Rightarrow> 's \<Rightarrow> exc + pyval \<times> 's" where
  "stream_write raw Stdout data s = raw_write raw data s"
| "stream_write raw (Unbuffered strm) data s =
     (case stream_write raw strm data s of
        Inl e \<Rightarrow> Inl e
      | Inr (v, s') \<Rightarrow>
          (case stream_flush raw strm s' of
             Inl e \<Rightarrow> Inl e
           | Inr s'' \<Rightarrow> Inr (PyNone, s'')))"

text \<open>
  A run of writes, as statements: the values are dropped and the first exception ends
  the run.
\<close>

fun stream_writes :: "'s raw_stream \<Rightarrow> out_stream \<Rightarrow> string list \<Rightarrow> 's \<Rightarrow> exc + 's" where
  "stream_writes raw strm [] s = Inr s"
| "stream_writes raw strm (d # ds) s =
     (case stream_write raw strm d s of
        Inl e \<Rightarrow> Inl e
      | Inr (v, s') \<Rightarrow> stream_writes raw strm ds s')"

text \<open>
  Attribute lookup. Python calls \<^verbatim>\<open>__getattr__\<close> only for a name its normal lookup
  does not find. Normal lookup finds, on an \<^verbatim>\<open>Unbuffered\<close> instance, the field
  \<^verbatim>\<open>stream\<close> that \<^verbatim>\<open>__init__\<close> sets, the three methods of the class body, the four
  names every class statement adds to a class derived from \<^verbatim>\<open>object\<close>, and the names
  of \<^verbatim>\<open>object\<close> itself. The last are a table of the interpreter and a parameter here.
  For every other name \<^verbatim>\<open>__getattr__\<close> asks the wrapped stream. The result is the
  object that supplies the attribute.
\<close>

definition Unbuffered_attrs :: "string list" where
  "Unbuffered_attrs = [''stream'', ''__init__'', ''write'', ''__getattr__'',
                       ''__module__'', ''__dict__'', ''__weakref__'', ''__doc__'']"

fun getattr_owner :: "(string \<Rightarrow> bool) \<Rightarrow> out_stream \<Rightarrow> string \<Rightarrow> out_stream" where
  "getattr_owner object_attrs Stdout attr = Stdout"
| "getattr_owner object_attrs (Unbuffered strm) attr =
     (if attr \<in> set Unbuffered_attrs \<or> object_attrs attr then Unbuffered strm
      else getattr_owner object_attrs strm attr)"

text \<open>
  A stream that records the calls it receives and never raises; its \<^verbatim>\<open>write\<close>
  returns the number of characters, as a Python 3 text stream does.
\<close>

datatype stream_call = Write string | Flush

definition recorder :: "stream_call list raw_stream" where
  "recorder = \<lparr>raw_write = (\<lambda>data s. Inr (PyInt (int (length data)), s @ [Write data])),
               raw_flush = (\<lambda>s. Inr (s @ [Flush]))\<rparr>"

fun is_Write :: "stream_call \<Rightarrow> bool" where
  "is_Write (Write d) = True"
| "is_Write Flush = False"

section \<open>\<^verbatim>\<open>CLI.__call__\<close>\<close>

text \<open>
  The parameters are given: the argparse front end \<^verbatim>\<open>get_params\<close>, used when
  \<^verbatim>\<open>params\<close> is \<^verbatim>\<open>None\<close>, and \<^verbatim>\<open>logging.basicConfig\<close> are left out.
\<close>

text \<open>
  \<^verbatim>\<open>sigusr_handler\<close>: \<^verbatim>\<open>raise StateTransition()\<close>. The handler runs inside
  whatever call the signal interrupts, and that call raises what the handler raises.
\<close>

definition sigusr_handler :: exc where
  "sigusr_handler = StateTransition"

text \<open>
  \<^verbatim>\<open>str.rstrip()\<close> without an argument removes the trailing characters that the
  interpreter counts as whitespace.
\<close>

definition rstrip :: "(char \<Rightarrow> bool) \<Rightarrow> string \<Rightarrow> string" where
  "rstrip isspace s = rev (dropWhile isspace (rev s))"

text \<open>
  The whitespace of a Python 2 byte string: space, tab, line feed, vertical tab, form
  feed and carriage return. Every version counts these as whitespace.
\<close>

definition is_space :: "char \<Rightarrow> bool" where
  "is_space c = (c \<in> set [CHR 0x20, CHR 0x09, CHR 0x0A, CHR 0x0B, CHR 0x0C, CHR 0x0D])"

text \<open>
  The whitespace of a Python 3 string among the code points below 256: the six above,
  the four separators 0x1C to 0x1F, next line 0x85 and no-break space 0xA0.
\<close>

definition is_space_py3 :: "char \<Rightarrow> bool" where
  "is_space_py3 c = (is_space c
     \<or> c \<in> set [CHR 0x1C, CHR 0x1D, CHR 0x1E, CHR 0x1F, CHR 0x85, CHR 0xA0])"

text \<open>
  \<^verbatim>\<open>interactive = params.run_once == "" and not params.run_from_stdin\<close>
\<close>

definition interactive_of :: "CLIParams \<Rightarrow> bool" where
  "interactive_of p = (run_once p = [] \<and> \<not> run_from_stdin p)"

text \<open>
  \<^verbatim>\<open>async = False if params.sync_connect or not interactive else True\<close>
\<close>

definition async_of :: "CLIParams \<Rightarrow> bool" where
  "async_of p = (if sync_connect p \<or> \<not> interactive_of p then False else True)"

text \<open>
  \<^verbatim>\<open>for cmd in lines: shell.onecmd(cmd.rstrip())\<close>; the value a command returns is
  dropped, an exception ends the loop.
\<close>

fun batch_loop :: "env \<Rightarrow> string list \<Rightarrow> event list \<Rightarrow> event list \<times> exc option" where
  "batch_loop e [] tr = (tr, None)"
| "batch_loop e (cmd # cmds) tr =
     (case shell_onecmd e tr (rstrip (str_isspace e) cmd) of
        Inl x \<Rightarrow> (tr @ [OneCmd (rstrip (str_isspace e) cmd)], Some x)
      | Inr v \<Rightarrow> batch_loop e cmds (tr @ [OneCmd (rstrip (str_isspace e) cmd)]))"

text \<open>
  The body of the \<^verbatim>\<open>try\<close>: the value of \<^verbatim>\<open>rc\<close> when it completes, or the
  exception that left it.
\<close>

definition try_body :: "env \<Rightarrow> CLIParams \<Rightarrow> event list \<Rightarrow> event list \<times> (exc + int)" where
  "try_body e p tr =
     (if run_once p \<noteq> [] then
        (case shell_onecmd e tr (run_once p) of
           Inl x \<Rightarrow> (tr @ [OneCmd (run_once p)], Inl x)
         | Inr v \<Rightarrow> (tr @ [OneCmd (run_once p)], Inr (if v = PyNone then 0 else 1)))
      else
        (case stdin_readlines e tr of
           Inl x \<Rightarrow> (tr @ [ReadLines], Inl x)
         | Inr lines \<Rightarrow>
             (case batch_loop e lines (tr @ [ReadLines]) of
                (tr', Some x) \<Rightarrow> (tr', Inl x)
              | (tr', None) \<Rightarrow> (tr', Inr 0))))"

text \<open>
  \<^verbatim>\<open>except IOError: rc = 1\<close>, then \<^verbatim>\<open>sys.exit(rc)\<close>. Any other exception leaves
  \<^verbatim>\<open>__call__\<close>.
\<close>

definition non_interactive :: "env \<Rightarrow> CLIParams \<Rightarrow> event list \<Rightarrow> event list \<times> outcome" where
  "non_interactive e p tr =
     (case try_body e p tr of
        (tr', Inr rc) \<Rightarrow> (tr', SystemExit rc)
      | (tr', Inl x) \<Rightarrow> (if x = IOError then (tr', SystemExit 1) else (tr', Uncaught x)))"

text \<open>
  \<^verbatim>\<open>intro = "Welcome to zk-shell (%s)" % (__version__)\<close>; the version is a constant
  of the package.
\<close>

definition intro_of :: "string \<Rightarrow> string" where
  "intro_of version = ''Welcome to zk-shell ('' @ version @ '')''"

definition exit_prompt :: string where
  "exit_prompt = CHR 0x0A # ''Exit? (y|n) ''"

text \<open>
  The \<^verbatim>\<open>while True\<close> loop. Each unit of fuel is one iteration; without fuel the
  loop is still running and there is no outcome.
\<close>

fun supervisor :: "nat \<Rightarrow> env \<Rightarrow> string \<Rightarrow> bool \<Rightarrow> event list \<Rightarrow> event list \<times> outcome option" where
  "supervisor 0 e intro first tr = (tr, None)"
| "supervisor (Suc n) e intro first tr =
     (case shell_run e tr (if first then Some intro else None) of
        Inr u \<Rightarrow> supervisor n e intro False (tr @ [Run (if first then Some intro else None)])
      | Inl x \<Rightarrow>
          (if x = StateTransition then
             supervisor n e intro False (tr @ [Run (if first then Some intro else None)])
           else if x = KeyboardInterrupt then
             (case raw_input e (tr @ [Run (if first then Some intro else None)]) exit_prompt of
                Inl y \<Rightarrow>
                  (tr @ [Run (if first then Some intro else None), RawInput exit_prompt],
                   Some (Uncaught y))
              | Inr done \<Rightarrow>
                  (if done = ''y'' then
                     (tr @ [Run (if first then Some intro else None), RawInput exit_prompt],
                      Some Returned)
                   else
                     supervisor n e intro False
                       (tr @ [Run (if first then Some intro else None), RawInput exit_prompt])))
           else (tr @ [Run (if first then Some intro else None)], Some (Uncaught x))))"

definition initial :: proc where
  "initial = \<lparr>sys_stdout = Stdout, sigusr2 = SIG_DFL, trace = []\<rparr>"

text \<open>The state after the \<^verbatim>\<open>Shell\<close> has been constructed.\<close>

definition shell_built :: "CLIParams \<Rightarrow> proc" where
  "shell_built p =
     (let st = (if \<not> interactive_of p then set_unbuffered_mode initial else initial) in
      st\<lparr>trace := trace st @
            [ShellInit (hosts p) (connect_timeout p) (interactive_of p) (sys_stdout st)
               (async_of p) (readonly p)]\<rparr>)"

text \<open>
  \<^verbatim>\<open>if not params.sync_connect: signal.signal(signal.SIGUSR2, sigusr_handler)\<close>
\<close>

definition arm :: "CLIParams \<Rightarrow> proc \<Rightarrow> proc" where
  "arm p st = (if \<not> sync_connect p then st\<lparr>sigusr2 := Sigusr_handler\<rparr> else st)"

text \<open>\<^verbatim>\<open>CLI.__call__\<close> with the parameters given.\<close>

definition cli_call :: "nat \<Rightarrow> string \<Rightarrow> env \<Rightarrow> CLIParams \<Rightarrow> proc \<times> outcome option" where
  "cli_call fuel version e p =
     (if \<not> interactive_of p then
        (case non_interactive e p (trace (shell_built p)) of
           (tr, out) \<Rightarrow> ((shell_built p)\<lparr>trace := tr\<rparr>, Some out))
      else
        (case supervisor fuel e (intro_of version) True (trace (arm p (shell_built p))) of
           (tr, out) \<Rightarrow> ((arm p (shell_built p))\<lparr>trace := tr\<rparr>, out)))"


section \<open>Execution modes\<close>


text \<open>
  The selection rule in the specification's words: one-shot if \<^verbatim>\<open>runOnceCommand\<close> is
  non-empty; else batch if \<^verbatim>\<open>runFromStdin\<close>; else interactive.
\<close>

definition select_mode_spec :: "CLIParams \<Rightarrow> mode" where
  "select_mode_spec p =
     (if run_once p \<noteq> [] then OneShot else if run_from_stdin p then Batch else Interactive)"

section \<open>Observations on a run\<close>

text \<open>The arguments of the calls of \<^verbatim>\<open>shell.run\<close>, in order.\<close>

fun run_args :: "event list \<Rightarrow> string option list" where
  "run_args [] = []"
| "run_args (Run i # tr) = i # run_args tr"
| "run_args (ev # tr) = run_args tr"


text \<open>The arguments of the calls of \<^verbatim>\<open>shell.onecmd\<close>, in order.\<close>

fun onecmd_args :: "event list \<Rightarrow> string list" where
  "onecmd_args [] = []"
| "onecmd_args (OneCmd c # tr) = c # onecmd_args tr"
| "onecmd_args (ev # tr) = onecmd_args tr"



text \<open>The exception of an answer, if it is one.\<close>

fun raised :: "exc + 'a \<Rightarrow> exc option" where
  "raised (Inl x) = Some x"
| "raised (Inr v) = None"

text \<open>
  The commands \<open>cs\<close>, executed in this order after the calls \<open>tr\<close>, all return.
\<close>

fun all_return :: "env \<Rightarrow> event list \<Rightarrow> string list \<Rightarrow> bool" where
  "all_return e tr [] = True"
| "all_return e tr (c # cs) =
     (raised (shell_onecmd e tr c) = None \<and> all_return e (tr @ [OneCmd c]) cs)"

text \<open>
  The command text in the specification's words: the line with its trailing line
  terminators stripped, and nothing else.
\<close>

definition strip_terminators_spec :: "string \<Rightarrow> string" where
  "strip_terminators_spec s = rev (dropWhile (\<lambda>c. c = CHR 0x0A \<or> c = CHR 0x0D) (rev s))"

section \<open>Example parameters and collaborators\<close>

text \<open>The parameters of an invocation without arguments.\<close>

definition params_default :: CLIParams where
  "params_default = \<lparr>connect_timeout = 10, run_once = [], run_from_stdin = False,
                      sync_connect = False, hosts = [], readonly = False\<rparr>"

text \<open>The parameters of an invocation with \<^verbatim>\<open>--run-from-stdin\<close>.\<close>

definition params_batch :: CLIParams where
  "params_batch = \<lparr>connect_timeout = 10, run_once = [], run_from_stdin = True,
                    sync_connect = False, hosts = [], readonly = False\<rparr>"

text \<open>
  Collaborators that never raise: every command returns \<^verbatim>\<open>None\<close>, standard input is
  empty, the prompt loop returns and the user answers \<^verbatim>\<open>n\<close>.
\<close>

definition env_quiet :: env where
  "env_quiet = \<lparr>shell_onecmd = (\<lambda>tr c. Inr PyNone),
                stdin_readlines = (\<lambda>tr. Inr []),
                shell_run = (\<lambda>tr i. Inr ()),
                raw_input = (\<lambda>tr q. Inr ''n''),
                str_isspace = is_space\<rparr>"

text \<open>
  Collaborators of a session with a reconnection and two interrupts: the first prompt
  loop is ended by \<^verbatim>\<open>StateTransition\<close>, every later one by \<^verbatim>\<open>KeyboardInterrupt\<close>;
  the user answers \<^verbatim>\<open>n\<close> the first time and \<^verbatim>\<open>y\<close> the second.
\<close>

definition env_restarts :: env where
  "env_restarts = \<lparr>shell_onecmd = (\<lambda>tr c. Inr PyNone),
                   stdin_readlines = (\<lambda>tr. Inr []),
                   shell_run = (\<lambda>tr i. if length tr = 1 then Inl StateTransition
                                         else Inl KeyboardInterrupt),
                   raw_input = (\<lambda>tr q. if length tr < 4 then Inr ''n'' else Inr ''y''),
                   str_isspace = is_space\<rparr>"

text \<open>
  Collaborators of a session where the user interrupts the prompt loop and
  \<^verbatim>\<open>SIGUSR2\<close> arrives while \<^verbatim>\<open>raw_input\<close> waits for the answer, so that
  \<^verbatim>\<open>sigusr_handler\<close> runs and raises there.
\<close>

definition env_signal_at_prompt :: env where
  "env_signal_at_prompt = \<lparr>shell_onecmd = (\<lambda>tr c. Inr PyNone),
                           stdin_readlines = (\<lambda>tr. Inr []),
                           shell_run = (\<lambda>tr i. Inl KeyboardInterrupt),
                           raw_input = (\<lambda>tr q. Inl sigusr_handler),
                           str_isspace = is_space\<rparr>"

text \<open>Two lines on standard input; every command returns \<^verbatim>\<open>True\<close>.\<close>

definition env_stop :: env where
  "env_stop = \<lparr>shell_onecmd = (\<lambda>tr c. Inr (PyBool True)),
               stdin_readlines = (\<lambda>tr. Inr [''cmdA\<newline>'', ''cmdB\<newline>'']),
               shell_run = (\<lambda>tr i. Inr ()),
               raw_input = (\<lambda>tr q. Inr ''n''),
               str_isspace = is_space\<rparr>"


text \<open>The same two lines; every command raises \<^verbatim>\<open>IOError\<close>.\<close>

definition env_broken_pipe :: env where
  "env_broken_pipe = \<lparr>shell_onecmd = (\<lambda>tr c. Inl IOError),
                      stdin_readlines = (\<lambda>tr. Inr [''cmdA\<newline>'', ''cmdB\<newline>'']),
                      shell_run = (\<lambda>tr i. Inr ()),
                      raw_input = (\<lambda>tr q. Inr ''n''),
                      str_isspace = is_space\<rparr>"

text \<open>Reading standard input raises \<^verbatim>\<open>IOError\<close>.\<close>

definition env_stdin_fails :: env where
  "env_stdin_fails = \<lparr>shell_onecmd = (\<lambda>tr c. Inr PyNone),
                      stdin_readlines = (\<lambda>tr. Inl IOError),
                      shell_run = (\<lambda>tr i. Inr ()),
                      raw_input = (\<lambda>tr q. Inr ''n''),
                      str_isspace = is_space\<rparr>"

text \<open>One line on standard input, with a space before its line feed.\<close>

definition env_trailing_space :: env where
  "env_trailing_space = \<lparr>shell_onecmd = (\<lambda>tr c. Inr PyNone),
                         stdin_readlines = (\<lambda>tr. Inr [''get /a \<newline>'']),
                         shell_run = (\<lambda>tr i. Inr ()),
                         raw_input = (\<lambda>tr q. Inr ''n''),
                         str_isspace = is_space\<rparr>"



text \<open>The line \<^verbatim>\<open>get /a\<close> followed by the separator 0x1C and a line feed.\<close>

definition separator_line :: string where
  "separator_line = ''get /a'' @ [CHR 0x1C, CHR 0x0A]"

text \<open>A Python 3 run with that line on standard input.\<close>

definition env_py3_separator :: env where
  "env_py3_separator =
     \<lparr>shell_onecmd = (\<lambda>tr c. Inr PyNone),
      stdin_readlines = (\<lambda>tr. Inr [separator_line]),
      shell_run = (\<lambda>tr i. Inr ()),
      raw_input = (\<lambda>tr q. Inr ''n''),
      str_isspace = is_space_py3\<rparr>"



text \<open>
  The names of \<^verbatim>\<open>object\<close> in Python 2.7, all of which Python 3 has too, and the
  names Python 3.6 adds.
\<close>

definition object_names_py2 :: "string list" where
  "object_names_py2 =
     [''__class__'', ''__delattr__'', ''__doc__'', ''__format__'', ''__getattribute__'',
      ''__hash__'', ''__init__'', ''__new__'', ''__reduce__'', ''__reduce_ex__'',
      ''__repr__'', ''__setattr__'', ''__sizeof__'', ''__str__'', ''__subclasshook__'']"

definition object_attrs_py2 :: "string \<Rightarrow> bool" where
  "object_attrs_py2 attr = (attr \<in> set object_names_py2)"

definition object_attrs_py3 :: "string \<Rightarrow> bool" where
  "object_attrs_py3 attr =
     (attr \<in> set (object_names_py2 @
        [''__dir__'', ''__eq__'', ''__ne__'', ''__lt__'', ''__le__'', ''__gt__'', ''__ge__'',
         ''__init_subclass__'']))"

section \<open>The calls of a run\<close>

lemma batch_loop_extends: "\<exists>ext. fst (batch_loop e cmds tr) = tr @ ext"
proof (induction cmds arbitrary: tr)
  case Nil
  show ?case by simp
next
  case (Cons cmd cmds)
  show ?case
  proof (cases "shell_onecmd e tr (rstrip (str_isspace e) cmd)")
    case (Inl x)
    then show ?thesis by simp
  next
    case (Inr v)
    from Cons.IH [of "tr @ [OneCmd (rstrip (str_isspace e) cmd)]"] obtain ext
      where "fst (batch_loop e cmds (tr @ [OneCmd (rstrip (str_isspace e) cmd)])) = (tr @ [OneCmd (rstrip (str_isspace e) cmd)]) @ ext"
      by blast
    with Inr show ?thesis by simp
  qed
qed

lemma supervisor_extends: "\<exists>ext. fst (supervisor n e intro first tr) = tr @ ext"
proof (induction n arbitrary: first tr)
  case 0
  show ?case by simp
next
  case (Suc n)
  let ?r = "Run (if first then Some intro else None)"
  from Suc.IH [of False "tr @ [?r]"] obtain ext1
    where e1: "fst (supervisor n e intro False (tr @ [?r])) = tr @ ?r # ext1" by auto
  from Suc.IH [of False "tr @ [?r, RawInput exit_prompt]"] obtain ext2
    where e2: "fst (supervisor n e intro False (tr @ [?r, RawInput exit_prompt]))
               = tr @ ?r # RawInput exit_prompt # ext2" by auto
  show ?case using e1 e2
    by (auto split: sum.splits)
qed


lemma trace_shell_built:
  "trace (shell_built p) =
     [ShellInit (hosts p) (connect_timeout p) (interactive_of p)
        (if interactive_of p then Stdout else Unbuffered Stdout) (async_of p) (readonly p)]"
  by (simp add: shell_built_def initial_def set_unbuffered_mode_def Let_def)

lemma trace_arm: "trace (arm p st) = trace st"
  by (simp add: arm_def)

lemma trace_cli_call_non_interactive:
  "\<not> interactive_of p \<Longrightarrow>
   trace (fst (cli_call fuel version e p)) = fst (non_interactive e p (trace (shell_built p)))"
  by (simp add: cli_call_def split: prod.splits)

lemma trace_cli_call_interactive:
  "interactive_of p \<Longrightarrow>
   trace (fst (cli_call fuel version e p))
     = fst (supervisor fuel e (intro_of version) True (trace (shell_built p)))"
  by (simp add: cli_call_def trace_arm split: prod.splits)

lemma try_body_first_call:
  "\<exists>ext. fst (try_body e p tr)
     = tr @ (if run_once p \<noteq> [] then OneCmd (run_once p) else ReadLines) # ext"
proof (cases "run_once p \<noteq> []")
  case True
  then show ?thesis by (simp add: try_body_def split: sum.splits)
next
  case False
  show ?thesis
  proof (cases "stdin_readlines e tr")
    case (Inl x)
    with False show ?thesis by (simp add: try_body_def)
  next
    case (Inr lines)
    from batch_loop_extends [of e lines "tr @ [ReadLines]"] obtain ext
      where "fst (batch_loop e lines (tr @ [ReadLines])) = (tr @ [ReadLines]) @ ext" by blast
    with False Inr show ?thesis
      by (auto simp: try_body_def split: prod.splits option.splits)
  qed
qed

lemma fst_non_interactive: "fst (non_interactive e p tr) = fst (try_body e p tr)"
  by (simp add: non_interactive_def split: prod.splits sum.splits)

section \<open>Mode selection\<close>



section \<open>The reconnection signal handler\<close>

text \<open>
  Claim C2. When \<^verbatim>\<open>CLI.__call__\<close> is over or still in its loop, \<^verbatim>\<open>sigusr_handler\<close> is
  the handler of \<^verbatim>\<open>SIGUSR2\<close> if and only if the mode is interactive and
  \<^verbatim>\<open>sync_connect\<close> is false. In one-shot mode, in batch mode and with
  \<^verbatim>\<open>sync_connect\<close> the signal keeps its default disposition.
\<close>

theorem handler_registration:
  "(sigusr2 (fst (cli_call fuel version e p)) = Sigusr_handler)
     = (select_mode_spec p = Interactive \<and> \<not> sync_connect p)
   \<and> (sigusr2 (fst (cli_call fuel version e p)) = SIG_DFL)
     = (select_mode_spec p \<noteq> Interactive \<or> sync_connect p)"
  by (auto simp: cli_call_def select_mode_spec_def interactive_of_def arm_def shell_built_def
      initial_def set_unbuffered_mode_def Let_def split: prod.splits if_splits)

theorem handler_registration_witness:
  "sigusr2 (fst (cli_call 2 ''1.0'' env_quiet params_default)) = Sigusr_handler
   \<and> sigusr2 (fst (cli_call 2 ''1.0'' env_quiet (params_default\<lparr>sync_connect := True\<rparr>))) = SIG_DFL
   \<and> sigusr2 (fst (cli_call 2 ''1.0'' env_quiet (params_default\<lparr>run_from_stdin := True\<rparr>))) = SIG_DFL
   \<and> sigusr2 (fst (cli_call 2 ''1.0'' env_quiet (params_default\<lparr>run_once := ''ls''\<rparr>))) = SIG_DFL"
  using handler_registration [of 2 "''1.0''" env_quiet params_default]
    handler_registration [of 2 "''1.0''" env_quiet "params_default\<lparr>sync_connect := True\<rparr>"]
    handler_registration [of 2 "''1.0''" env_quiet "params_default\<lparr>run_from_stdin := True\<rparr>"]
    handler_registration [of 2 "''1.0''" env_quiet "params_default\<lparr>run_once := ''ls''\<rparr>"]
  by (simp add: select_mode_spec_def params_default_def)

section \<open>The welcome banner\<close>

lemma run_args_append: "run_args (xs @ ys) = run_args xs @ run_args ys"
  by (induction xs rule: run_args.induct) auto

lemma supervisor_later_runs:
  "\<exists>k. run_args (fst (supervisor n e intro False tr)) = run_args tr @ replicate k None"
proof (induction n arbitrary: tr)
  case 0
  have "run_args tr = run_args tr @ replicate 0 None" by simp
  then show ?case by (metis fst_conv supervisor.simps(1))
next
  case (Suc n)
  from Suc.IH [of "tr @ [Run None]"] obtain k1
    where k1: "run_args (fst (supervisor n e intro False (tr @ [Run None])))
               = run_args tr @ replicate (Suc k1) None"
    by (auto simp: run_args_append)
  from Suc.IH [of "tr @ [Run None, RawInput exit_prompt]"] obtain k2
    where k2: "run_args (fst (supervisor n e intro False (tr @ [Run None, RawInput exit_prompt])))
               = run_args tr @ replicate (Suc k2) None"
    by (auto simp: run_args_append)
  have one: "run_args tr @ [None] = run_args tr @ replicate (Suc 0) None" by simp
  show ?case
  proof (cases "shell_run e tr None")
    case (Inr u)
    with k1 show ?thesis by (auto simp del: replicate_Suc)
  next
    case (Inl x)
    show ?thesis
    proof (cases "x = StateTransition")
      case True
      with Inl k1 show ?thesis by (auto simp del: replicate_Suc)
    next
      case nst: False
      show ?thesis
      proof (cases "x = KeyboardInterrupt")
        case False
        with Inl nst one show ?thesis
          by (auto simp: run_args_append simp del: replicate_Suc replicate.simps)
      next
        case True
        show ?thesis
        proof (cases "raw_input e (tr @ [Run None]) exit_prompt")
          case (Inl y)
          with \<open>shell_run e tr None = Inl x\<close> True one show ?thesis
            by (auto simp: run_args_append simp del: replicate_Suc replicate.simps)
        next
          case (Inr ans)
          with \<open>shell_run e tr None = Inl x\<close> True one k2 show ?thesis
            by (cases "ans = ''y''")
               (auto simp: run_args_append simp del: replicate_Suc replicate.simps)
        qed
      qed
    qed
  qed
qed

lemma supervisor_first_run:
  "\<exists>k. run_args (fst (supervisor (Suc n) e intro True tr))
        = run_args tr @ Some intro # replicate k None"
proof -
  from supervisor_later_runs [of n e intro "tr @ [Run (Some intro)]"] obtain k1
    where k1: "run_args (fst (supervisor n e intro False (tr @ [Run (Some intro)])))
               = run_args tr @ Some intro # replicate k1 None"
    by (auto simp: run_args_append)
  from supervisor_later_runs [of n e intro "tr @ [Run (Some intro), RawInput exit_prompt]"] obtain k2
    where k2: "run_args (fst (supervisor n e intro False (tr @ [Run (Some intro), RawInput exit_prompt])))
               = run_args tr @ Some intro # replicate k2 None"
    by (auto simp: run_args_append)
  have one: "run_args tr @ [Some intro] = run_args tr @ Some intro # replicate 0 None" by simp
  show ?thesis
  proof (cases "shell_run e tr (Some intro)")
    case (Inr u)
    with k1 show ?thesis by auto
  next
    case (Inl x)
    show ?thesis
    proof (cases "x = StateTransition")
      case True
      with Inl k1 show ?thesis by auto
    next
      case nst: False
      show ?thesis
      proof (cases "x = KeyboardInterrupt")
        case False
        with Inl nst one show ?thesis
          by (auto simp: run_args_append)
      next
        case True
        show ?thesis
        proof (cases "raw_input e (tr @ [Run (Some intro)]) exit_prompt")
          case (Inl y)
          with \<open>shell_run e tr (Some intro) = Inl x\<close> True one show ?thesis
            by (auto simp: run_args_append)
        next
          case (Inr ans)
          with \<open>shell_run e tr (Some intro) = Inl x\<close> True one k2 show ?thesis
            by (cases "ans = ''y''") (auto simp: run_args_append)
        qed
      qed
    qed
  qed
qed

text \<open>
  Claim C3. In an interactive run the first call of \<^verbatim>\<open>shell.run\<close> gets the banner,
  which contains the version, and every later call gets \<^verbatim>\<open>None\<close>, whatever ended the
  calls before it (a return, a reconnection, a declined exit confirmation) and however
  many there are.
\<close>

theorem banner_once:
  assumes "select_mode_spec p = Interactive" and "0 < fuel"
  shows "run_args (trace (fst (cli_call fuel version e p)))
           = Some (intro_of version)
             # replicate (length (run_args (trace (fst (cli_call fuel version e p)))) - 1) None
       \<and> intro_of version = ''Welcome to zk-shell ('' @ version @ '')''"
proof -
  from assms(1) have i: "interactive_of p"
    by (auto simp: select_mode_spec_def interactive_of_def split: if_splits)
  from assms(2) obtain n where n: "fuel = Suc n" by (cases fuel) auto
  from supervisor_first_run [of n e "intro_of version" "trace (shell_built p)"] obtain k
    where "run_args (fst (supervisor (Suc n) e (intro_of version) True (trace (shell_built p))))
           = run_args (trace (shell_built p)) @ Some (intro_of version) # replicate k None"
    by blast
  with i n have "run_args (trace (fst (cli_call fuel version e p)))
                 = Some (intro_of version) # replicate k None"
    by (simp add: trace_cli_call_interactive trace_shell_built)
  then show ?thesis by (simp add: intro_of_def)
qed

theorem banner_once_witness:
  "select_mode_spec params_default = Interactive \<and> (0::nat) < 3
   \<and> run_args (trace (fst (cli_call 3 ''1.0'' env_restarts params_default)))
       = [Some ''Welcome to zk-shell (1.0)'', None, None]"
  using banner_once [of params_default 3 "''1.0''" env_restarts]
  by (simp add: select_mode_spec_def params_default_def cli_call_def interactive_of_def
      shell_built_def arm_def initial_def async_of_def intro_of_def env_restarts_def
      numeral_3_eq_3 exit_prompt_def)

section \<open>The exit confirmation\<close>











section \<open>A reconnection during the exit confirmation\<close>

text \<open>
  A reconnection during the prompt loop is caught: the loop goes on with the next call
  of \<^verbatim>\<open>shell.run\<close>, without the banner, and \<^verbatim>\<open>raw_input\<close> is not called.
\<close>

lemma reconnect_during_run:
  "shell_run e tr (if first then Some intro else None) = Inl sigusr_handler \<Longrightarrow>
   supervisor (Suc n) e intro first tr
     = supervisor n e intro False (tr @ [Run (if first then Some intro else None)])"
  by (simp add: sigusr_handler_def)

text \<open>
  Claim C5. The claim is that \<^verbatim>\<open>StateTransition\<close> is caught wherever it is raised,
  also while the answer to the exit confirmation is read. In the run below the
  handler is registered, the user interrupts the first prompt loop and the signal
  arrives during \<^verbatim>\<open>raw_input\<close>: the \<^verbatim>\<open>except StateTransition\<close> clause guards
  \<^verbatim>\<open>shell.run\<close> only, so the exception leaves \<^verbatim>\<open>CLI.__call__\<close> uncaught.
\<close>

theorem reconnect_during_confirmation:
  "cli_call 1 ''1.0'' env_signal_at_prompt params_default
     = (\<lparr>sys_stdout = Stdout, sigusr2 = Sigusr_handler,
         trace = [ShellInit [] 10 True Stdout True False,
                  Run (Some ''Welcome to zk-shell (1.0)''),
                  RawInput exit_prompt]\<rparr>,
        Some (Uncaught StateTransition))"
  by (simp add: params_default_def cli_call_def interactive_of_def
      shell_built_def arm_def initial_def async_of_def intro_of_def env_signal_at_prompt_def
      sigusr_handler_def)

section \<open>Batch runs\<close>

lemma batch_loop_prefix:
  "\<exists>k. fst (batch_loop e lines tr) = tr @ map OneCmd (map (rstrip (str_isspace e)) (take k lines))"
proof (induction lines arbitrary: tr)
  case Nil
  show ?case by simp
next
  case (Cons cmd cmds)
  show ?case
  proof (cases "shell_onecmd e tr (rstrip (str_isspace e) cmd)")
    case (Inl x)
    then have "fst (batch_loop e (cmd # cmds) tr)
               = tr @ map OneCmd (map (rstrip (str_isspace e)) (take (Suc 0) (cmd # cmds)))" by simp
    then show ?thesis by blast
  next
    case (Inr v)
    from Cons.IH [of "tr @ [OneCmd (rstrip (str_isspace e) cmd)]"] obtain k
      where "fst (batch_loop e cmds (tr @ [OneCmd (rstrip (str_isspace e) cmd)]))
             = (tr @ [OneCmd (rstrip (str_isspace e) cmd)]) @ map OneCmd (map (rstrip (str_isspace e)) (take k cmds))"
      by blast
    with Inr have "fst (batch_loop e (cmd # cmds) tr)
                   = tr @ map OneCmd (map (rstrip (str_isspace e)) (take (Suc k) (cmd # cmds)))" by simp
    then show ?thesis by blast
  qed
qed

lemma batch_loop_completed:
  "snd (batch_loop e lines tr) = None \<Longrightarrow>
   fst (batch_loop e lines tr) = tr @ map OneCmd (map (rstrip (str_isspace e)) lines)"
  by (induction lines arbitrary: tr) (auto split: sum.splits)


lemma batch_loop_no_raise:
  "(\<And>tr c. raised (shell_onecmd e tr c) = None) \<Longrightarrow> snd (batch_loop e lines tr) = None"
proof (induction lines arbitrary: tr)
  case Nil
  show ?case by simp
next
  case (Cons cmd cmds)
  from Cons.prems [of tr "rstrip (str_isspace e) cmd"] obtain v where "shell_onecmd e tr (rstrip (str_isspace e) cmd) = Inr v"
    by (cases "shell_onecmd e tr (rstrip (str_isspace e) cmd)") auto
  with Cons show ?case by simp
qed


lemma batch_loop_all_return:
  "(snd (batch_loop e lines tr) = None)
     = all_return e tr (map (rstrip (str_isspace e)) lines)"
proof (induction lines arbitrary: tr)
  case Nil
  show ?case by simp
next
  case (Cons cmd cmds)
  show ?case
    by (cases "shell_onecmd e tr (rstrip (str_isspace e) cmd)") (simp_all add: Cons.IH)
qed

lemma batch_not_interactive: "select_mode_spec p = Batch \<Longrightarrow> \<not> interactive_of p \<and> run_once p = []"
  by (auto simp: select_mode_spec_def interactive_of_def split: if_splits)

lemma cli_call_batch:
  "select_mode_spec p = Batch \<Longrightarrow>
   cli_call fuel version e p =
     (case non_interactive e p (trace (shell_built p)) of
        (tr, out) \<Rightarrow> ((shell_built p)\<lparr>trace := tr\<rparr>, Some out))"
  by (simp add: cli_call_def batch_not_interactive)

lemma non_interactive_batch:
  "run_once p = [] \<Longrightarrow>
   non_interactive e p tr =
     (case stdin_readlines e tr of
        Inl x \<Rightarrow> (tr @ [ReadLines], if x = IOError then SystemExit 1 else Uncaught x)
      | Inr lines \<Rightarrow>
          (case batch_loop e lines (tr @ [ReadLines]) of
             (tr', Some x) \<Rightarrow> (tr', if x = IOError then SystemExit 1 else Uncaught x)
           | (tr', None) \<Rightarrow> (tr', SystemExit 0)))"
  by (simp add: non_interactive_def try_body_def split: sum.splits prod.splits option.splits)

lemma batch_outcome:
  assumes "select_mode_spec p = Batch"
  shows "snd (cli_call fuel version e p) =
     (case stdin_readlines e (trace (shell_built p)) of
        Inl x \<Rightarrow> Some (if x = IOError then SystemExit 1 else Uncaught x)
      | Inr lines \<Rightarrow>
          (case snd (batch_loop e lines (trace (shell_built p) @ [ReadLines])) of
             Some x \<Rightarrow> Some (if x = IOError then SystemExit 1 else Uncaught x)
           | None \<Rightarrow> Some (SystemExit 0)))"
  using assms
  by (simp add: cli_call_batch non_interactive_batch batch_not_interactive
      split: sum.splits prod.splits option.splits)

lemma batch_trace:
  assumes "select_mode_spec p = Batch"
  shows "trace (fst (cli_call fuel version e p)) =
     (case stdin_readlines e (trace (shell_built p)) of
        Inl x \<Rightarrow> trace (shell_built p) @ [ReadLines]
      | Inr lines \<Rightarrow> fst (batch_loop e lines (trace (shell_built p) @ [ReadLines])))"
  using assms
  by (simp add: cli_call_batch non_interactive_batch batch_not_interactive
      split: sum.splits prod.splits option.splits)

lemma onecmd_args_append: "onecmd_args (xs @ ys) = onecmd_args xs @ onecmd_args ys"
  by (induction xs rule: onecmd_args.induct) auto

lemma onecmd_args_map: "onecmd_args (map OneCmd cs) = cs"
  by (induction cs) auto

lemma onecmd_args_map_comp: "onecmd_args (map (OneCmd \<circ> f) xs) = map f xs"
  by (induction xs) auto



lemma rstrip_decomp: "\<exists>t. s = rstrip ws s @ t \<and> list_all ws t"
proof -
  have "rev (takeWhile ws (rev s) @ dropWhile ws (rev s)) = s" by simp
  then have "rev (dropWhile ws (rev s)) @ rev (takeWhile ws (rev s)) = s"
    by (simp only: rev_append)
  then have "s = rstrip ws s @ rev (takeWhile ws (rev s))"
    by (simp only: rstrip_def)
  moreover have "list_all ws (rev (takeWhile ws (rev s)))"
    by (simp add: list_all_iff) (metis set_takeWhileD)
  ultimately show ?thesis by blast
qed

lemma rstrip_last: "rstrip ws s \<noteq> [] \<Longrightarrow> \<not> ws (last (rstrip ws s))"
  by (simp add: rstrip_def last_rev hd_dropWhile)

lemma rstrip_append:
  assumes "list_all ws t"
  shows "rstrip ws (s @ t) = rstrip ws s"
proof -
  from assms have "\<And>x. x \<in> set (rev t) \<Longrightarrow> ws x" by (simp add: list_all_iff)
  then have "dropWhile ws (rev t @ rev s) = dropWhile ws (rev s)"
    by (rule dropWhile_append2)
  then show ?thesis by (simp add: rstrip_def)
qed

lemma rstrip_unchanged: "s \<noteq> [] \<Longrightarrow> \<not> ws (last s) \<Longrightarrow> rstrip ws s = s"
proof -
  assume a: "s \<noteq> []" "\<not> ws (last s)"
  then have "rev s \<noteq> []" and "\<not> ws (hd (rev s))" by (simp_all add: hd_rev)
  then have "dropWhile ws (rev s) = rev s" by (cases "rev s") simp_all
  then show ?thesis by (simp add: rstrip_def)
qed

lemma shell_built_batch:
  "select_mode_spec p = Batch \<Longrightarrow>
   trace (shell_built p)
     = [ShellInit (hosts p) (connect_timeout p) False (Unbuffered Stdout) False (readonly p)]"
  by (simp add: trace_shell_built batch_not_interactive async_of_def)

section \<open>One-shot exit codes\<close>

text \<open>
  Claim C7. A one-shot run makes one call, \<^verbatim>\<open>shell.onecmd(run_once)\<close>, and calls
  \<^verbatim>\<open>sys.exit\<close> with 0 when the call returns \<^verbatim>\<open>None\<close>, with 1 when it returns any
  other value and with 1 when it raises \<^verbatim>\<open>IOError\<close>. A one-shot or batch run always
  ends, and never by returning to its caller.
\<close>

theorem one_shot_exit:
  "(select_mode_spec p = OneShot \<longrightarrow>
      trace (fst (cli_call fuel version e p)) = trace (shell_built p) @ [OneCmd (run_once p)]
      \<and> (shell_onecmd e (trace (shell_built p)) (run_once p) = Inr PyNone \<longrightarrow>
           snd (cli_call fuel version e p) = Some (SystemExit 0))
      \<and> (\<forall>v. shell_onecmd e (trace (shell_built p)) (run_once p) = Inr v \<and> v \<noteq> PyNone \<longrightarrow>
           snd (cli_call fuel version e p) = Some (SystemExit 1))
      \<and> (shell_onecmd e (trace (shell_built p)) (run_once p) = Inl IOError \<longrightarrow>
           snd (cli_call fuel version e p) = Some (SystemExit 1)))
   \<and> (select_mode_spec p \<noteq> Interactive \<longrightarrow>
        (\<exists>out. snd (cli_call fuel version e p) = Some out \<and> out \<noteq> Returned))"
proof (intro conjI impI allI)
  assume m: "select_mode_spec p = OneShot"
  then have r: "run_once p \<noteq> []" and ni: "\<not> interactive_of p"
    by (auto simp: select_mode_spec_def interactive_of_def split: if_splits)
  from r ni show "trace (fst (cli_call fuel version e p))
      = trace (shell_built p) @ [OneCmd (run_once p)]"
    by (simp add: cli_call_def non_interactive_def try_body_def split: sum.splits)
  {
    assume "shell_onecmd e (trace (shell_built p)) (run_once p) = Inr PyNone"
    with r ni show "snd (cli_call fuel version e p) = Some (SystemExit 0)"
      by (simp add: cli_call_def non_interactive_def try_body_def)
  }
  {
    fix v
    assume "shell_onecmd e (trace (shell_built p)) (run_once p) = Inr v \<and> v \<noteq> PyNone"
    with r ni show "snd (cli_call fuel version e p) = Some (SystemExit 1)"
      by (simp add: cli_call_def non_interactive_def try_body_def)
  }
  {
    assume "shell_onecmd e (trace (shell_built p)) (run_once p) = Inl IOError"
    with r ni show "snd (cli_call fuel version e p) = Some (SystemExit 1)"
      by (simp add: cli_call_def non_interactive_def try_body_def)
  }
next
  assume "select_mode_spec p \<noteq> Interactive"
  then have ni: "\<not> interactive_of p"
    by (auto simp: select_mode_spec_def interactive_of_def split: if_splits)
  then show "\<exists>out. snd (cli_call fuel version e p) = Some out \<and> out \<noteq> Returned"
    by (auto simp: cli_call_def non_interactive_def split: prod.splits sum.splits)
qed

theorem one_shot_exit_witness:
  "select_mode_spec (params_default\<lparr>run_once := ''ls /''\<rparr>) = OneShot
   \<and> cli_call 0 ''1.0'' env_quiet (params_default\<lparr>run_once := ''ls /''\<rparr>)
     = (\<lparr>sys_stdout = Unbuffered Stdout, sigusr2 = SIG_DFL,
         trace = [ShellInit [] 10 False (Unbuffered Stdout) False False, OneCmd ''ls /'']\<rparr>,
        Some (SystemExit 0))
   \<and> snd (cli_call 0 ''1.0'' env_stop (params_default\<lparr>run_once := ''ls /''\<rparr>))
     = Some (SystemExit 1)
   \<and> snd (cli_call 0 ''1.0'' env_broken_pipe (params_default\<lparr>run_once := ''ls /''\<rparr>))
     = Some (SystemExit 1)
   \<and> select_mode_spec params_batch \<noteq> Interactive
   \<and> snd (cli_call 0 ''1.0'' env_quiet params_batch) = Some (SystemExit 0)"
  using one_shot_exit [of "params_default\<lparr>run_once := ''ls /''\<rparr>" 0 "''1.0''" env_quiet]
    one_shot_exit [of "params_default\<lparr>run_once := ''ls /''\<rparr>" 0 "''1.0''" env_stop]
    one_shot_exit [of "params_default\<lparr>run_once := ''ls /''\<rparr>" 0 "''1.0''" env_broken_pipe]
    one_shot_exit [of params_batch 0 "''1.0''" env_quiet]
  by (simp add: select_mode_spec_def params_default_def params_batch_def cli_call_def
      interactive_of_def shell_built_def initial_def set_unbuffered_mode_def async_of_def
      non_interactive_def try_body_def env_quiet_def env_stop_def env_broken_pipe_def)

section \<open>Batch exit codes\<close>










section \<open>Batch reads before it executes\<close>

text \<open>
  Claim C10. A batch run calls \<^verbatim>\<open>sys.stdin.readlines\<close> once, right after the
  \<^verbatim>\<open>Shell\<close> constructor, and every call of \<^verbatim>\<open>shell.onecmd\<close> comes after it. When
  reading raises, no command is executed (and the exit code is 1 for \<^verbatim>\<open>IOError\<close>).
  When reading returns, the commands executed come from a prefix of the complete list
  of lines.
\<close>

theorem batch_reads_first:
  assumes "select_mode_spec p = Batch"
  shows "(\<exists>cs. trace (fst (cli_call fuel version e p))
            = [ShellInit (hosts p) (connect_timeout p) False (Unbuffered Stdout) False (readonly p),
               ReadLines] @ map OneCmd cs)
       \<and> (\<forall>x. stdin_readlines e (trace (shell_built p)) = Inl x \<longrightarrow>
            trace (fst (cli_call fuel version e p))
              = [ShellInit (hosts p) (connect_timeout p) False (Unbuffered Stdout) False (readonly p),
                 ReadLines]
            \<and> onecmd_args (trace (fst (cli_call fuel version e p))) = []
            \<and> (x = IOError \<longrightarrow> snd (cli_call fuel version e p) = Some (SystemExit 1)))
       \<and> (\<forall>lines. stdin_readlines e (trace (shell_built p)) = Inr lines \<longrightarrow>
            (\<exists>k. onecmd_args (trace (fst (cli_call fuel version e p)))
                   = map (rstrip (str_isspace e)) (take k lines)))"
proof -
  let ?tr0 = "trace (shell_built p)"
  note out = batch_outcome [OF assms, of fuel version e]
  note tr = batch_trace [OF assms, of fuel version e]
  note sb = shell_built_batch [OF assms]
  have a: "\<exists>cs. trace (fst (cli_call fuel version e p)) = (?tr0 @ [ReadLines]) @ map OneCmd cs"
  proof (cases "stdin_readlines e ?tr0")
    case (Inl x)
    then have "trace (fst (cli_call fuel version e p)) = (?tr0 @ [ReadLines]) @ map OneCmd []"
      by (simp add: tr)
    then show ?thesis by blast
  next
    case (Inr lines)
    from batch_loop_prefix [of e lines "?tr0 @ [ReadLines]"] obtain k
      where "fst (batch_loop e lines (?tr0 @ [ReadLines]))
             = (?tr0 @ [ReadLines]) @ map OneCmd (map (rstrip (str_isspace e)) (take k lines))" by blast
    with Inr have "trace (fst (cli_call fuel version e p))
                   = (?tr0 @ [ReadLines]) @ map OneCmd (map (rstrip (str_isspace e)) (take k lines))"
      by (simp add: tr)
    then show ?thesis by blast
  qed
  have b: "\<forall>x. stdin_readlines e ?tr0 = Inl x \<longrightarrow>
            trace (fst (cli_call fuel version e p)) = ?tr0 @ [ReadLines]
            \<and> onecmd_args (trace (fst (cli_call fuel version e p))) = []
            \<and> (x = IOError \<longrightarrow> snd (cli_call fuel version e p) = Some (SystemExit 1))"
    by (simp add: out tr sb)
  have c: "\<forall>lines. stdin_readlines e ?tr0 = Inr lines \<longrightarrow>
            (\<exists>k. onecmd_args (trace (fst (cli_call fuel version e p)))
                   = map (rstrip (str_isspace e)) (take k lines))"
  proof (intro allI impI)
    fix lines
    assume r: "stdin_readlines e ?tr0 = Inr lines"
    from batch_loop_prefix [of e lines "?tr0 @ [ReadLines]"] obtain k
      where "fst (batch_loop e lines (?tr0 @ [ReadLines]))
             = (?tr0 @ [ReadLines]) @ map OneCmd (map (rstrip (str_isspace e)) (take k lines))" by blast
    with r have "onecmd_args (trace (fst (cli_call fuel version e p)))
                 = map (rstrip (str_isspace e)) (take k lines)"
      by (simp add: tr sb onecmd_args_append onecmd_args_map onecmd_args_map_comp)
    then show "\<exists>k. onecmd_args (trace (fst (cli_call fuel version e p)))
                   = map (rstrip (str_isspace e)) (take k lines)" by blast
  qed
  from a b c show ?thesis by (simp add: sb)
qed

theorem batch_reads_first_witness:
  "select_mode_spec params_batch = Batch
   \<and> stdin_readlines env_stdin_fails (trace (shell_built params_batch)) = Inl IOError
   \<and> trace (fst (cli_call 0 ''1.0'' env_stdin_fails params_batch))
     = [ShellInit [] 10 False (Unbuffered Stdout) False False, ReadLines]
   \<and> snd (cli_call 0 ''1.0'' env_stdin_fails params_batch) = Some (SystemExit 1)
   \<and> stdin_readlines env_stop (trace (shell_built params_batch))
     = Inr [''cmdA\<newline>'', ''cmdB\<newline>'']
   \<and> trace (fst (cli_call 0 ''1.0'' env_stop params_batch))
     = [ShellInit [] 10 False (Unbuffered Stdout) False False, ReadLines,
        OneCmd ''cmdA'', OneCmd ''cmdB'']"
  using batch_reads_first [of params_batch 0 "''1.0''" env_stdin_fails]
    batch_reads_first [of params_batch 0 "''1.0''" env_stop]
  by (simp add: select_mode_spec_def params_batch_def cli_call_def
      interactive_of_def shell_built_def initial_def set_unbuffered_mode_def async_of_def
      non_interactive_def try_body_def env_stop_def env_stdin_fails_def rstrip_def is_space_def)

section \<open>Batch command text\<close>

text \<open>
  The specification says that only the trailing line terminators of a line are
  stripped. For the line \<^verbatim>\<open>get /a\<close> followed by a space and a line feed that would be
  \<^verbatim>\<open>get /a\<close> with the space; the command executed is \<^verbatim>\<open>get /a\<close> without it.
\<close>

theorem batch_command_text_counterexample:
  "stdin_readlines env_trailing_space [ShellInit [] 10 False (Unbuffered Stdout) False False]
     = Inr [''get /a \<newline>'']
   \<and> strip_terminators_spec ''get /a \<newline>'' = ''get /a ''
   \<and> onecmd_args (trace (fst (cli_call 0 ''1.0'' env_trailing_space params_batch)))
     = [''get /a'']"
  by (simp add: params_batch_def cli_call_def interactive_of_def shell_built_def initial_def
      set_unbuffered_mode_def async_of_def non_interactive_def try_body_def
      env_trailing_space_def rstrip_def is_space_def strip_terminators_spec_def)

text \<open>
  Claim C9, amended. In batch mode the commands executed are the lines, in order,
  each with \<^verbatim>\<open>rstrip()\<close> applied (all of them when none of the commands executed
  raises). The result of \<^verbatim>\<open>rstrip\<close> is the line without its longest suffix of
  whitespace, whitespace being what the interpreter that runs the code counts as such:
  what is removed is whitespace only, what is left does not end in whitespace, and a
  line that does not end in whitespace is left as it is. Every interpreter counts
  space, tab, line feed, vertical tab, form feed and carriage return as whitespace, so
  a trailing run of these is always removed, not only the line terminators.
\<close>

theorem batch_command_text:
  assumes "select_mode_spec p = Batch"
    and "stdin_readlines e (trace (shell_built p)) = Inr lines"
  shows "(\<exists>k. onecmd_args (trace (fst (cli_call fuel version e p)))
                = map (rstrip (str_isspace e)) (take k lines))
       \<and> (all_return e (trace (shell_built p) @ [ReadLines])
             (map (rstrip (str_isspace e)) lines) \<longrightarrow>
            onecmd_args (trace (fst (cli_call fuel version e p)))
              = map (rstrip (str_isspace e)) lines)
       \<and> (\<forall>s. (\<exists>t. s = rstrip (str_isspace e) s @ t \<and> list_all (str_isspace e) t)
               \<and> (rstrip (str_isspace e) s = []
                  \<or> \<not> str_isspace e (last (rstrip (str_isspace e) s))))
       \<and> (\<forall>s. s \<noteq> [] \<and> \<not> str_isspace e (last s) \<longrightarrow> rstrip (str_isspace e) s = s)
       \<and> ((\<forall>c. c \<in> set [CHR '' '', CHR 0x09, CHR 0x0A, CHR 0x0B, CHR 0x0C, CHR 0x0D]
               \<longrightarrow> str_isspace e c) \<longrightarrow>
            (\<forall>s t. set t \<subseteq> set [CHR '' '', CHR 0x09, CHR 0x0A, CHR 0x0B, CHR 0x0C, CHR 0x0D]
               \<longrightarrow> rstrip (str_isspace e) (s @ t) = rstrip (str_isspace e) s))"
proof -
  let ?tr0 = "trace (shell_built p)"
  let ?ws = "str_isspace e"
  note tr = batch_trace [OF assms(1), of fuel version e]
  note sb = shell_built_batch [OF assms(1)]
  from batch_loop_prefix [of e lines "?tr0 @ [ReadLines]"] obtain k
    where "fst (batch_loop e lines (?tr0 @ [ReadLines]))
           = (?tr0 @ [ReadLines]) @ map OneCmd (map (rstrip ?ws) (take k lines))" by blast
  with assms(2) have "onecmd_args (trace (fst (cli_call fuel version e p)))
                      = map (rstrip ?ws) (take k lines)"
    by (simp add: tr sb onecmd_args_append onecmd_args_map onecmd_args_map_comp)
  then have a: "\<exists>k. onecmd_args (trace (fst (cli_call fuel version e p)))
                     = map (rstrip ?ws) (take k lines)" by blast
  have b: "all_return e (?tr0 @ [ReadLines]) (map (rstrip ?ws) lines) \<longrightarrow>
            onecmd_args (trace (fst (cli_call fuel version e p))) = map (rstrip ?ws) lines"
  proof
    assume "all_return e (?tr0 @ [ReadLines]) (map (rstrip ?ws) lines)"
    then have "snd (batch_loop e lines (?tr0 @ [ReadLines])) = None"
      by (simp add: batch_loop_all_return)
    from batch_loop_completed [OF this] assms(2)
    show "onecmd_args (trace (fst (cli_call fuel version e p))) = map (rstrip ?ws) lines"
      by (simp add: tr sb onecmd_args_append onecmd_args_map onecmd_args_map_comp)
  qed
  have c: "\<forall>s. (\<exists>t. s = rstrip ?ws s @ t \<and> list_all ?ws t)
               \<and> (rstrip ?ws s = [] \<or> \<not> ?ws (last (rstrip ?ws s)))"
    using rstrip_decomp [of _ ?ws] rstrip_last [of ?ws] by blast
  have d: "\<forall>s. s \<noteq> [] \<and> \<not> ?ws (last s) \<longrightarrow> rstrip ?ws s = s"
    using rstrip_unchanged [of _ ?ws] by blast
  have f: "(\<forall>c. c \<in> set [CHR '' '', CHR 0x09, CHR 0x0A, CHR 0x0B, CHR 0x0C, CHR 0x0D]
               \<longrightarrow> ?ws c) \<longrightarrow>
            (\<forall>s t. set t \<subseteq> set [CHR '' '', CHR 0x09, CHR 0x0A, CHR 0x0B, CHR 0x0C, CHR 0x0D]
               \<longrightarrow> rstrip ?ws (s @ t) = rstrip ?ws s)"
  proof (intro impI allI)
    fix s t
    assume w: "\<forall>c. c \<in> set [CHR '' '', CHR 0x09, CHR 0x0A, CHR 0x0B, CHR 0x0C, CHR 0x0D]
                 \<longrightarrow> ?ws c"
      and t: "set t \<subseteq> set [CHR '' '', CHR 0x09, CHR 0x0A, CHR 0x0B, CHR 0x0C, CHR 0x0D]"
    then have "list_all ?ws t" unfolding list_all_iff by blast
    then show "rstrip ?ws (s @ t) = rstrip ?ws s" by (rule rstrip_append)
  qed
  show ?thesis
    by (intro conjI) (rule a, rule b, rule c, rule d, rule f)
qed

theorem batch_command_text_witness:
  "select_mode_spec params_batch = Batch
   \<and> stdin_readlines env_trailing_space (trace (shell_built params_batch))
     = Inr [''get /a \<newline>'']
   \<and> all_return env_trailing_space (trace (shell_built params_batch) @ [ReadLines]) [''get /a'']
   \<and> onecmd_args (trace (fst (cli_call 0 ''1.0'' env_trailing_space params_batch)))
     = [''get /a'']
   \<and> str_isspace env_trailing_space (CHR '' '')
   \<and> rstrip (str_isspace env_trailing_space) (''get /a'' @ '' \<newline>'') = ''get /a''
   \<and> rstrip (str_isspace env_trailing_space) ''get /a'' = ''get /a''
   \<and> stdin_readlines env_py3_separator (trace (shell_built params_batch))
     = Inr [separator_line]
   \<and> str_isspace env_py3_separator (CHR 0x1C)
   \<and> onecmd_args (trace (fst (cli_call 0 ''1.0'' env_py3_separator params_batch)))
     = [''get /a'']"
proof -
  have m: "select_mode_spec params_batch = Batch"
    by (simp add: select_mode_spec_def params_batch_def)
  have tr0: "trace (shell_built params_batch)
             = [ShellInit [] 10 False (Unbuffered Stdout) False False]"
    by (simp add: shell_built_batch [OF m]) (simp add: params_batch_def)
  have s: "rstrip is_space ''get /a \<newline>'' = ''get /a''"
    "rstrip is_space ''get /a'' = ''get /a''"
    "rstrip is_space_py3 separator_line = ''get /a''"
    by (simp_all add: rstrip_def is_space_def is_space_py3_def separator_line_def)
  have w: "str_isspace env_trailing_space = is_space" "str_isspace env_py3_separator = is_space_py3"
    by (simp_all add: env_trailing_space_def env_py3_separator_def)
  have r1: "stdin_readlines env_trailing_space (trace (shell_built params_batch))
            = Inr [''get /a \<newline>'']"
    by (simp add: env_trailing_space_def)
  have r2: "stdin_readlines env_py3_separator (trace (shell_built params_batch))
            = Inr [separator_line]"
    by (simp add: env_py3_separator_def)
  have a1: "all_return env_trailing_space (trace (shell_built params_batch) @ [ReadLines])
              (map (rstrip (str_isspace env_trailing_space)) [''get /a \<newline>''])"
    by (simp add: w s) (simp add: env_trailing_space_def)
  have a2: "all_return env_py3_separator (trace (shell_built params_batch) @ [ReadLines])
              (map (rstrip (str_isspace env_py3_separator)) [separator_line])"
    by (simp add: w s) (simp add: env_py3_separator_def)
  note t1 = batch_command_text [OF m r1, of 0 "''1.0''"]
  note t2 = batch_command_text [OF m r2, of 0 "''1.0''"]
  from t1 [THEN conjunct2, THEN conjunct1] a1
  have c1: "onecmd_args (trace (fst (cli_call 0 ''1.0'' env_trailing_space params_batch)))
            = map (rstrip (str_isspace env_trailing_space)) [''get /a \<newline>'']"
    by blast
  from t2 [THEN conjunct2, THEN conjunct1] a2
  have c2: "onecmd_args (trace (fst (cli_call 0 ''1.0'' env_py3_separator params_batch)))
            = map (rstrip (str_isspace env_py3_separator)) [separator_line]"
    by blast
  have i: "is_space (CHR '' '')" "is_space_py3 (CHR 0x1C)"
    by (simp_all add: is_space_def is_space_py3_def)
  from m r1 r2 a1 c1 c2 show ?thesis
    by (simp add: w s i tr0)
qed

section \<open>The output adapter at work\<close>

lemma recorder_unbuffered:
  "stream_writes recorder (Unbuffered Stdout) ds log
     = Inr (log @ concat (map (\<lambda>d. [Write d, Flush]) ds))"
  by (induction ds arbitrary: log) (simp_all add: recorder_def)

lemma recorder_twice:
  "stream_writes recorder (Unbuffered (Unbuffered Stdout)) ds log
     = Inr (log @ concat (map (\<lambda>d. [Write d, Flush, Flush]) ds))"
  by (induction ds arbitrary: log) (simp_all add: recorder_def)

lemma recorder_plain: "stream_writes recorder Stdout ds log = Inr (log @ map Write ds)"
  by (induction ds arbitrary: log) (simp_all add: recorder_def)

lemma writes_of_unbuffered:
  "filter is_Write (concat (map (\<lambda>d. [Write d, Flush]) ds)) = map Write ds"
  by (induction ds) simp_all

lemma write_returns_none:
  "stream_write raw (Unbuffered strm) data s = Inr (v, s') \<Longrightarrow> v = PyNone"
  by (auto split: sum.splits prod.splits)

lemma stdout_of_call:
  "sys_stdout (fst (cli_call fuel version e p))
     = (if select_mode_spec p = Interactive then Stdout else Unbuffered Stdout)"
  by (auto simp: cli_call_def select_mode_spec_def interactive_of_def arm_def shell_built_def
      initial_def set_unbuffered_mode_def Let_def split: prod.splits)

lemma shell_output:
  "\<exists>rest. trace (fst (cli_call fuel version e p))
     = ShellInit (hosts p) (connect_timeout p) (interactive_of p)
         (sys_stdout (fst (cli_call fuel version e p))) (async_of p) (readonly p) # rest"
proof (cases "interactive_of p")
  case True
  from supervisor_extends [of fuel e "intro_of version" True "trace (shell_built p)"]
  obtain ext where "fst (supervisor fuel e (intro_of version) True (trace (shell_built p)))
                    = trace (shell_built p) @ ext" by blast
  with True show ?thesis
    by (simp add: trace_cli_call_interactive trace_shell_built stdout_of_call
        select_mode_spec_def interactive_of_def)
next
  case False
  from try_body_first_call [of e p "trace (shell_built p)"] obtain ext
    where "fst (try_body e p (trace (shell_built p)))
      = trace (shell_built p) @ (if run_once p \<noteq> [] then OneCmd (run_once p) else ReadLines) # ext"
    by blast
  with False show ?thesis
    by (auto simp: trace_cli_call_non_interactive fst_non_interactive trace_shell_built
        stdout_of_call select_mode_spec_def interactive_of_def)
qed

text \<open>
  The specification says that a write through the adapter has the write semantics of
  the wrapped stream except for the flush, and that any attribute not explicitly
  wrapped is passed through. On a stream whose \<^verbatim>\<open>write\<close> returns the number of
  characters, the write of \<^verbatim>\<open>ok\<close> returns 2 and the same write through the adapter
  returns \<^verbatim>\<open>None\<close>. The names \<^verbatim>\<open>__class__\<close> and \<^verbatim>\<open>__doc__\<close> are not wrapped by
  the class, yet the adapter answers them itself and the wrapped stream is not asked.
\<close>

theorem output_adapter_counterexample:
  "stream_write recorder Stdout ''ok'' [] = Inr (PyInt 2, [Write ''ok''])
   \<and> stream_write recorder (Unbuffered Stdout) ''ok'' [] = Inr (PyNone, [Write ''ok'', Flush])
   \<and> getattr_owner object_attrs_py2 (Unbuffered Stdout) ''__class__'' = Unbuffered Stdout
   \<and> getattr_owner object_attrs_py3 (Unbuffered Stdout) ''__class__'' = Unbuffered Stdout
   \<and> getattr_owner object_attrs_py2 (Unbuffered Stdout) ''__doc__'' = Unbuffered Stdout"
  by (simp add: recorder_def object_attrs_py2_def object_attrs_py3_def object_names_py2_def
      Unbuffered_attrs_def)

text \<open>
  Claim C8, amended. A write through the adapter is the wrapped stream's write with
  the same data, followed at once by the wrapped stream's flush; an exception of
  either is passed on as it is, and the write returns \<^verbatim>\<open>None\<close> whatever the wrapped
  write returned. A flush of the adapter is the flush of the wrapped stream. On a
  stream that records its calls, a run of writes through the adapter leaves the same
  writes in the same order as a run without it, each followed by a flush. A name that
  Python's normal lookup finds on the adapter is answered by the adapter: its own
  \<^verbatim>\<open>stream\<close> and \<^verbatim>\<open>write\<close>, the other names its class carries, and the names of
  \<^verbatim>\<open>object\<close>, such as \<^verbatim>\<open>__class__\<close>. Every other name is looked up on the wrapped
  stream. After \<^verbatim>\<open>CLI.__call__\<close>, \<^verbatim>\<open>sys.stdout\<close> is the adapter around the
  interpreter's stream if the mode is one-shot or batch and the interpreter's stream
  itself if it is interactive; that object is the \<^verbatim>\<open>output\<close> the \<^verbatim>\<open>Shell\<close> gets.
\<close>

theorem output_adapter:
  "stream_write raw (Unbuffered strm) data s
     = (case stream_write raw strm data s of
          Inl x \<Rightarrow> Inl x
        | Inr (v, s') \<Rightarrow>
            (case stream_flush raw strm s' of Inl x \<Rightarrow> Inl x | Inr s'' \<Rightarrow> Inr (PyNone, s'')))
   \<and> stream_write raw (Unbuffered Stdout) data s
     = (case raw_write raw data s of
          Inl x \<Rightarrow> Inl x
        | Inr (v, s') \<Rightarrow>
            (case raw_flush raw s' of Inl x \<Rightarrow> Inl x | Inr s'' \<Rightarrow> Inr (PyNone, s'')))
   \<and> (\<forall>v s'. stream_write raw (Unbuffered strm) data s = Inr (v, s') \<longrightarrow> v = PyNone)
   \<and> stream_flush raw (Unbuffered strm) s = stream_flush raw strm s
   \<and> stream_writes recorder (Unbuffered Stdout) ds []
     = Inr (concat (map (\<lambda>d. [Write d, Flush]) ds))
   \<and> stream_writes recorder (Unbuffered (Unbuffered Stdout)) ds []
     = Inr (concat (map (\<lambda>d. [Write d, Flush, Flush]) ds))
   \<and> stream_writes recorder Stdout ds [] = Inr (map Write ds)
   \<and> filter is_Write (concat (map (\<lambda>d. [Write d, Flush]) ds)) = map Write ds
   \<and> (attr \<in> set Unbuffered_attrs \<or> object_attrs attr \<longrightarrow>
        getattr_owner object_attrs (Unbuffered strm) attr = Unbuffered strm)
   \<and> (attr \<notin> set Unbuffered_attrs \<and> \<not> object_attrs attr \<longrightarrow>
        getattr_owner object_attrs (Unbuffered strm) attr = getattr_owner object_attrs strm attr)
   \<and> ((\<forall>a \<in> set object_names_py2. object_attrs a) \<longrightarrow>
        (\<forall>a \<in> set object_names_py2.
           getattr_owner object_attrs (Unbuffered strm) a = Unbuffered strm))
   \<and> set Unbuffered_attrs
     = {''stream'', ''write'', ''__init__'', ''__getattr__'',
        ''__module__'', ''__dict__'', ''__weakref__'', ''__doc__''}
   \<and> sys_stdout (fst (cli_call fuel version e p))
     = (if select_mode_spec p = OneShot \<or> select_mode_spec p = Batch
        then Unbuffered Stdout else Stdout)
   \<and> (\<exists>rest. trace (fst (cli_call fuel version e p))
        = ShellInit (hosts p) (connect_timeout p) (interactive_of p)
            (sys_stdout (fst (cli_call fuel version e p))) (async_of p) (readonly p) # rest)"
proof -
  have m: "(select_mode_spec p = OneShot \<or> select_mode_spec p = Batch)
           = (select_mode_spec p \<noteq> Interactive)"
    by (cases "select_mode_spec p") simp_all
  have a: "stream_write raw (Unbuffered strm) data s
     = (case stream_write raw strm data s of
          Inl x \<Rightarrow> Inl x
        | Inr (v, s') \<Rightarrow>
            (case stream_flush raw strm s' of Inl x \<Rightarrow> Inl x | Inr s'' \<Rightarrow> Inr (PyNone, s'')))"
    by simp
  have a': "stream_write raw (Unbuffered Stdout) data s
     = (case raw_write raw data s of
          Inl x \<Rightarrow> Inl x
        | Inr (v, s') \<Rightarrow>
            (case raw_flush raw s' of Inl x \<Rightarrow> Inl x | Inr s'' \<Rightarrow> Inr (PyNone, s'')))"
    by (simp split: sum.splits prod.splits)
  have n: "\<forall>v s'. stream_write raw (Unbuffered strm) data s = Inr (v, s') \<longrightarrow> v = PyNone"
    by (intro allI impI) (rule write_returns_none)
  have fl: "stream_flush raw (Unbuffered strm) s = stream_flush raw strm s"
    by simp
  have b: "stream_writes recorder (Unbuffered Stdout) ds []
        = Inr (concat (map (\<lambda>d. [Write d, Flush]) ds))"
    using recorder_unbuffered [of ds "[]"] by simp
  have b': "stream_writes recorder (Unbuffered (Unbuffered Stdout)) ds []
        = Inr (concat (map (\<lambda>d. [Write d, Flush, Flush]) ds))"
    using recorder_twice [of ds "[]"] by simp
  have c: "stream_writes recorder Stdout ds [] = Inr (map Write ds)"
    using recorder_plain [of ds "[]"] by simp
  have d: "filter is_Write (concat (map (\<lambda>d. [Write d, Flush]) ds)) = map Write ds"
    by (rule writes_of_unbuffered)
  have f: "attr \<in> set Unbuffered_attrs \<or> object_attrs attr \<longrightarrow>
        getattr_owner object_attrs (Unbuffered strm) attr = Unbuffered strm"
    by simp
  have f': "attr \<notin> set Unbuffered_attrs \<and> \<not> object_attrs attr \<longrightarrow>
        getattr_owner object_attrs (Unbuffered strm) attr = getattr_owner object_attrs strm attr"
    by simp
  have g: "(\<forall>a \<in> set object_names_py2. object_attrs a) \<longrightarrow>
        (\<forall>a \<in> set object_names_py2.
           getattr_owner object_attrs (Unbuffered strm) a = Unbuffered strm)"
    by simp
  have u: "set Unbuffered_attrs
     = {''stream'', ''write'', ''__init__'', ''__getattr__'',
        ''__module__'', ''__dict__'', ''__weakref__'', ''__doc__''}"
    unfolding Unbuffered_attrs_def by (simp add: insert_commute)
  have h: "sys_stdout (fst (cli_call fuel version e p))
     = (if select_mode_spec p = OneShot \<or> select_mode_spec p = Batch
        then Unbuffered Stdout else Stdout)"
    by (simp add: stdout_of_call m)
  note i = shell_output [of fuel version e p]
  show ?thesis
    by (intro conjI)
       (rule a, rule a', rule n, rule fl, rule b, rule b', rule c, rule d, rule f, rule f',
        rule g, rule u, rule h, rule i)
qed

theorem output_adapter_witness:
  "stream_write recorder (Unbuffered Stdout) ''ok'' [] = Inr (PyNone, [Write ''ok'', Flush])
   \<and> stream_writes recorder (Unbuffered Stdout) [''a'', ''b''] []
     = Inr [Write ''a'', Flush, Write ''b'', Flush]
   \<and> stream_writes recorder Stdout [''a'', ''b''] [] = Inr [Write ''a'', Write ''b'']
   \<and> ''flush'' \<notin> set Unbuffered_attrs \<and> \<not> object_attrs_py3 ''flush''
   \<and> getattr_owner object_attrs_py3 (Unbuffered Stdout) ''flush'' = Stdout
   \<and> ''write'' \<in> set Unbuffered_attrs
   \<and> getattr_owner object_attrs_py3 (Unbuffered Stdout) ''write'' = Unbuffered Stdout
   \<and> list_all object_attrs_py3 object_names_py2
   \<and> getattr_owner object_attrs_py3 (Unbuffered Stdout) ''__repr__'' = Unbuffered Stdout
   \<and> sys_stdout (fst (cli_call 1 ''1.0'' env_quiet params_batch)) = Unbuffered Stdout
   \<and> sys_stdout (fst (cli_call 1 ''1.0'' env_quiet params_default)) = Stdout
   \<and> trace (fst (cli_call 1 ''1.0'' env_quiet params_batch))
     = [ShellInit [] 10 False (Unbuffered Stdout) False False, ReadLines]"
proof -
  note t1 = output_adapter [of recorder Stdout "''ok''" "[]" "[''a'', ''b'']" "''flush''"
      object_attrs_py3 1 "''1.0''" env_quiet params_batch]
  note t2 = output_adapter [of recorder Stdout "''ok''" "[]" "[''a'', ''b'']" "''write''"
      object_attrs_py3 1 "''1.0''" env_quiet params_default]
  note c4 = conjunct2 [THEN conjunct2, THEN conjunct2, THEN conjunct2]
  note w1 = t1 [THEN c4, THEN conjunct1]
  note w2 = t1 [THEN c4, THEN conjunct2, THEN conjunct2, THEN conjunct1]
  note own = t2 [THEN c4, THEN c4, THEN conjunct1]
  note fwd = t1 [THEN c4, THEN c4, THEN conjunct2, THEN conjunct1]
  note obj = t1 [THEN c4, THEN c4, THEN conjunct2, THEN conjunct2, THEN conjunct1]
  note o1 = t1 [THEN c4, THEN c4, THEN c4, THEN conjunct1]
  note o2 = t2 [THEN c4, THEN c4, THEN c4, THEN conjunct1]
  have k: "list_all object_attrs_py3 object_names_py2"
    by (simp add: object_attrs_py3_def object_names_py2_def)
  then have k': "\<forall>a \<in> set object_names_py2. object_attrs_py3 a"
    by (simp add: list_all_iff)
  from obj k' have "\<forall>a \<in> set object_names_py2.
      getattr_owner object_attrs_py3 (Unbuffered Stdout) a = Unbuffered Stdout"
    by (rule mp)
  moreover have "''__repr__'' \<in> set object_names_py2"
    by (simp add: object_names_py2_def)
  ultimately have r:
    "getattr_owner object_attrs_py3 (Unbuffered Stdout) ''__repr__'' = Unbuffered Stdout"
    by (rule bspec)
  have q: "''flush'' \<notin> set Unbuffered_attrs \<and> \<not> object_attrs_py3 ''flush''"
    by (simp add: Unbuffered_attrs_def object_attrs_py3_def object_names_py2_def)
  have q': "''write'' \<in> set Unbuffered_attrs"
    by (simp add: Unbuffered_attrs_def)
  from fwd [rule_format, OF q]
  have fl: "getattr_owner object_attrs_py3 (Unbuffered Stdout) ''flush'' = Stdout"
    by simp
  from own [rule_format, OF disjI1, OF q']
  have wr: "getattr_owner object_attrs_py3 (Unbuffered Stdout) ''write'' = Unbuffered Stdout" .
  have x: "stream_write recorder (Unbuffered Stdout) ''ok'' [] = Inr (PyNone, [Write ''ok'', Flush])"
    by (simp add: recorder_def)
  have y: "trace (fst (cli_call 1 ''1.0'' env_quiet params_batch))
     = [ShellInit [] 10 False (Unbuffered Stdout) False False, ReadLines]"
    by (simp add: params_batch_def cli_call_def interactive_of_def shell_built_def
        initial_def set_unbuffered_mode_def async_of_def non_interactive_def try_body_def
        env_quiet_def)
  have md: "select_mode_spec params_batch = Batch" "select_mode_spec params_default = Interactive"
    by (simp_all add: select_mode_spec_def params_batch_def params_default_def)
  from w1 have w1': "stream_writes recorder (Unbuffered Stdout) [''a'', ''b''] []
     = Inr [Write ''a'', Flush, Write ''b'', Flush]" by simp
  from w2 have w2': "stream_writes recorder Stdout [''a'', ''b''] [] = Inr [Write ''a'', Write ''b'']"
    by simp
  from o1 md have o1': "sys_stdout (fst (cli_call 1 ''1.0'' env_quiet params_batch))
     = Unbuffered Stdout" by simp
  from o2 md have o2': "sys_stdout (fst (cli_call 1 ''1.0'' env_quiet params_default)) = Stdout"
    by simp
  show ?thesis
    by (intro conjI)
       (rule x, rule w1', rule w2', rule q [THEN conjunct1], rule q [THEN conjunct2], rule fl,
        rule q', rule wr, rule k, rule r, rule o1', rule o2', rule y)
qed

end
